theory Spec2Isabelle
  imports Main
begin

section \<open>JavaScript values, exceptions and engine triggers\<close>

text \<open>
  The values that flow through \<^verbatim>\<open>src/rules/trigger-builder.js\<close> are modelled by the
  primitive JavaScript values. Numbers are restricted to integers (no NaN, no fractions) of
  magnitude below \<open>10 ^ 21\<close>, which JavaScript prints digit by digit as \<open>ToString\<close> below
  does; strings are byte lists, a non-ASCII character of the source standing for its UTF-8
  bytes.
\<close>

datatype jsval = JUndefined | JNull | JBool bool | JNum int | JStr string

text \<open>
  An argument of a constructor or starter method: a primitive value, an object that exposes
  a \<^verbatim>\<open>name\<close> property (read as the given value) and no other property the code looks
  at, or the \<^verbatim>\<open>TriggerBuilder\<close> object of the session (\<^verbatim>\<open>this\<close> inside its methods).
\<close>

datatype jsarg = Prim jsval | NamedObj jsval | Builder

fun nat_str :: "nat \<Rightarrow> string" where
  "nat_str n =
     (if n < 10 then [''0123456789'' ! n]
      else nat_str (n div 10) @ [''0123456789'' ! (n mod 10)])"

declare nat_str.simps [simp del]

definition int_str :: "int \<Rightarrow> string" where
  "int_str i = (if i < 0 then ''-'' @ nat_str (nat (- i)) else nat_str (nat i))"

text \<open>String conversion, as performed by template literals and by \<^verbatim>\<open>+\<close> with a string.\<close>

fun ToString :: "jsval \<Rightarrow> string" where
  "ToString JUndefined = ''undefined''"
| "ToString JNull = ''null''"
| "ToString (JBool b) = (if b then ''true'' else ''false'')"
| "ToString (JNum n) = int_str n"
| "ToString (JStr s) = s"

text \<open>Truthiness, as tested by \<^verbatim>\<open>if (v)\<close>, \<^verbatim>\<open>v ? a : b\<close> and \<^verbatim>\<open>v || w\<close>.\<close>

fun ToBoolean :: "jsval \<Rightarrow> bool" where
  "ToBoolean JUndefined = False"
| "ToBoolean JNull = False"
| "ToBoolean (JBool b) = b"
| "ToBoolean (JNum n) = (n \<noteq> 0)"
| "ToBoolean (JStr s) = (s \<noteq> [])"

fun truthy_arg :: "jsarg \<Rightarrow> bool" where
  "truthy_arg (Prim v) = ToBoolean v"
| "truthy_arg (NamedObj n) = True"
| "truthy_arg Builder = True"

text \<open>The operator \<^verbatim>\<open>a || b\<close>.\<close>

definition js_or :: "jsval \<Rightarrow> jsval \<Rightarrow> jsval" where
  "js_or a b = (if ToBoolean a then a else b)"

text \<open>
  The comparison \<^verbatim>\<open>v == s\<close> against a string \<open>s\<close> that does not read as a number
  (such as \<^verbatim>\<open>'changed'\<close>): a string compares by content; a number or boolean is compared
  with the number that \<open>s\<close> converts to, which is NaN; \<^verbatim>\<open>null\<close> and \<^verbatim>\<open>undefined\<close>
  equal only each other.
\<close>

fun loose_eq_text :: "jsval \<Rightarrow> string \<Rightarrow> bool" where
  "loose_eq_text (JStr t) s = (t = s)"
| "loose_eq_text v s = False"

text \<open>
  What a method can raise: a thrown value (\<^verbatim>\<open>throw "..."\<close>), or the TypeError and
  ReferenceError that the language raises by itself.
\<close>

datatype exn = Thrown jsval | TypeError string | ReferenceError string

text \<open>
  The statements \<^verbatim>\<open>throw error("Unknown operation type: " + this.op_type)\<close> call an
  identifier \<^verbatim>\<open>error\<close> that the module binds nowhere (it binds \<^verbatim>\<open>triggers\<close>,
  \<^verbatim>\<open>operations\<close>, \<^verbatim>\<open>conditions\<close> and \<^verbatim>\<open>log\<close>). The global binding is a parameter:
  \<open>None\<close> when there is none, so that evaluating the callee raises a ReferenceError;
  \<open>Some f\<close> when the host provides one, \<open>f msg\<close> being what the statement then raises.
\<close>

definition throw_error :: "(string \<Rightarrow> exn) option \<Rightarrow> string \<Rightarrow> exn" where
  "throw_error err msg =
     (case err of None \<Rightarrow> ReferenceError ''error is not defined'' | Some f \<Rightarrow> f msg)"

text \<open>
  The factory functions of \<^verbatim>\<open>require('../triggers')\<close> are outside this file; an
  engine-native trigger is the record of which factory was called on which arguments.
\<close>

datatype oh_trigger =
    ChannelEventTrigger jsval jsval
  | GenericCronTrigger jsval
  | GroupStateChangeTrigger jsval jsval jsval
  | GroupCommandTrigger jsval jsval
  | GroupStateUpdateTrigger jsval jsval
  | ItemStateChangeTrigger jsval jsval jsval
  | ItemCommandTrigger jsval jsval
  | ItemStateUpdateTrigger jsval jsval
  | ThingStatusChangeTrigger jsval jsval jsval
  | ThingStatusUpdateTrigger jsval jsval
  | SystemStartlevelTrigger jsval

text \<open>The bytes of the compact markers U+0394, U+2318 and U+21BB.\<close>

definition delta_marker :: string where
  "delta_marker = [CHR 0xCE, CHR 0x94]"

definition command_marker :: string where
  "command_marker = [CHR 0xE2, CHR 0x8C, CHR 0x98]"

definition update_marker :: string where
  "update_marker = [CHR 0xE2, CHR 0x86, CHR 0xBB]"


section \<open>The trigger configuration classes\<close>

text \<open>
  Every class extends \<^verbatim>\<open>TriggerConf\<close>, whose constructor stores the back-reference it is
  given. A field that was never assigned reads as \<^verbatim>\<open>undefined\<close>.
\<close>

record TriggerConf =
  triggerBuilder :: jsarg

record ChannelTriggerConfig = TriggerConf +
  channelName :: jsval
  eventName :: jsval

record CronTriggerConfig = TriggerConf +
  timeStr :: jsval

record ThingTriggerConfig = TriggerConf +
  thingUID :: jsval
  op_type :: jsval
  to_value :: jsval
  from_value :: jsval

record SystemTriggerConfig = TriggerConf +
  level :: jsval

record ItemTriggerConfig = TriggerConf +
  type :: string
  item_name :: jsval
  op_type :: jsval
  to_value :: jsval
  from_value :: jsval


subsection \<open>ChannelTriggerConfig\<close>

definition ChannelTriggerConfig_constructor :: "jsval \<Rightarrow> jsarg \<Rightarrow> ChannelTriggerConfig" where
  "ChannelTriggerConfig_constructor name tb =
     \<lparr>triggerBuilder = tb, channelName = name, eventName = JUndefined\<rparr>"

definition ChannelTriggerConfig_toOHTriggers :: "ChannelTriggerConfig \<Rightarrow> oh_trigger list" where
  "ChannelTriggerConfig_toOHTriggers c = [ChannelEventTrigger (channelName c) (eventName c)]"

definition ChannelTriggerConfig_triggered ::
  "jsval \<Rightarrow> ChannelTriggerConfig \<Rightarrow> ChannelTriggerConfig" where
  "ChannelTriggerConfig_triggered ev c = c\<lparr>eventName := js_or ev (JStr '''')\<rparr>"

definition ChannelTriggerConfig_to ::
  "jsval \<Rightarrow> ChannelTriggerConfig \<Rightarrow> ChannelTriggerConfig" where
  "ChannelTriggerConfig_to ev c = ChannelTriggerConfig_triggered ev c"

definition ChannelTriggerConfig_complete :: "ChannelTriggerConfig \<Rightarrow> bool" where
  "ChannelTriggerConfig_complete c = (eventName c \<noteq> JUndefined)"


subsection \<open>CronTriggerConfig\<close>

definition CronTriggerConfig_constructor :: "jsval \<Rightarrow> jsarg \<Rightarrow> CronTriggerConfig" where
  "CronTriggerConfig_constructor s tb = \<lparr>triggerBuilder = tb, timeStr = s\<rparr>"

definition CronTriggerConfig_complete :: "CronTriggerConfig \<Rightarrow> bool" where
  "CronTriggerConfig_complete c = True"

definition CronTriggerConfig_toOHTriggers :: "CronTriggerConfig \<Rightarrow> oh_trigger list" where
  "CronTriggerConfig_toOHTriggers c = [GenericCronTrigger (timeStr c)]"


subsection \<open>ItemTriggerConfig\<close>

text \<open>
  The constructor reads \<^verbatim>\<open>itemOrName.name\<close> unless the argument is a string: on
  \<^verbatim>\<open>undefined\<close> and \<^verbatim>\<open>null\<close> that read raises, on another primitive and on the
  builder object it yields \<^verbatim>\<open>undefined\<close>.
\<close>

definition ItemTriggerConfig_constructor ::
  "jsarg \<Rightarrow> jsarg \<Rightarrow> jsarg \<Rightarrow> exn + ItemTriggerConfig" where
  "ItemTriggerConfig_constructor itemOrName isGroup tb =
     (let ty = (if truthy_arg isGroup then ''memberOf'' else ''item'');
          mk = (\<lambda>n. Inr \<lparr>triggerBuilder = tb, type = ty, item_name = n,
                          ItemTriggerConfig.op_type = JUndefined,
                          ItemTriggerConfig.to_value = JUndefined,
                          ItemTriggerConfig.from_value = JUndefined\<rparr>)
      in case itemOrName of
           Prim (JStr s) \<Rightarrow> mk (JStr s)
         | Prim JUndefined \<Rightarrow> Inl (TypeError ''cannot read properties of undefined'')
         | Prim JNull \<Rightarrow> Inl (TypeError ''cannot read properties of null'')
         | Prim _ \<Rightarrow> mk JUndefined
         | NamedObj n \<Rightarrow> mk n
         | Builder \<Rightarrow> mk JUndefined)"

definition ItemTriggerConfig_to :: "jsval \<Rightarrow> ItemTriggerConfig \<Rightarrow> ItemTriggerConfig" where
  "ItemTriggerConfig_to v c = c\<lparr>ItemTriggerConfig.to_value := v\<rparr>"

text \<open>The constructor's \<^verbatim>\<open>this.of = this.to\<close>.\<close>

definition ItemTriggerConfig_of :: "jsval \<Rightarrow> ItemTriggerConfig \<Rightarrow> ItemTriggerConfig" where
  "ItemTriggerConfig_of v c = ItemTriggerConfig_to v c"

definition ItemTriggerConfig_from ::
  "jsval \<Rightarrow> ItemTriggerConfig \<Rightarrow> exn + ItemTriggerConfig" where
  "ItemTriggerConfig_from v c =
     (if \<not> loose_eq_text (ItemTriggerConfig.op_type c) ''changed''
      then Inl (Thrown (JStr ''.from(..) only available for .changed()''))
      else Inr (c\<lparr>ItemTriggerConfig.from_value := v\<rparr>))"

definition ItemTriggerConfig_toOff :: "ItemTriggerConfig \<Rightarrow> ItemTriggerConfig" where
  "ItemTriggerConfig_toOff c = ItemTriggerConfig_to (JStr ''OFF'') c"

definition ItemTriggerConfig_toOn :: "ItemTriggerConfig \<Rightarrow> ItemTriggerConfig" where
  "ItemTriggerConfig_toOn c = ItemTriggerConfig_to (JStr ''ON'') c"

definition ItemTriggerConfig_receivedCommand :: "ItemTriggerConfig \<Rightarrow> ItemTriggerConfig" where
  "ItemTriggerConfig_receivedCommand c = c\<lparr>ItemTriggerConfig.op_type := JStr ''receivedCommand''\<rparr>"

definition ItemTriggerConfig_receivedUpdate :: "ItemTriggerConfig \<Rightarrow> ItemTriggerConfig" where
  "ItemTriggerConfig_receivedUpdate c = c\<lparr>ItemTriggerConfig.op_type := JStr ''receivedUpdate''\<rparr>"

definition ItemTriggerConfig_changed :: "ItemTriggerConfig \<Rightarrow> ItemTriggerConfig" where
  "ItemTriggerConfig_changed c = c\<lparr>ItemTriggerConfig.op_type := JStr ''changed''\<rparr>"

definition ItemTriggerConfig_complete :: "ItemTriggerConfig \<Rightarrow> bool" where
  "ItemTriggerConfig_complete c = (ItemTriggerConfig.op_type c \<noteq> JUndefined)"

text \<open>
  The constructor assigns \<^verbatim>\<open>this.describe = () => `${this.type} ${this.item_name} changed`\<close>,
  an own property of every instance. A call \<^verbatim>\<open>cfg.describe(compact)\<close> finds it before the
  method \<^verbatim>\<open>describe(compact)\<close> of the class, and the arrow function takes no parameter.
\<close>

definition ItemTriggerConfig_describe :: "ItemTriggerConfig \<Rightarrow> bool \<Rightarrow> string" where
  "ItemTriggerConfig_describe c compact = type c @ '' '' @ ToString (item_name c) @ '' changed''"

text \<open>
  The method \<^verbatim>\<open>describe(compact)\<close> of the class body (lines 220 to 249), reachable only
  through the prototype.
\<close>

definition ItemTriggerConfig_prototype_describe ::
  "(string \<Rightarrow> exn) option \<Rightarrow> ItemTriggerConfig \<Rightarrow> bool \<Rightarrow> exn + string" where
  "ItemTriggerConfig_prototype_describe err c compact =
     (if ItemTriggerConfig.op_type c = JStr ''changed'' then
        (if compact then
           (let transition = js_or (JStr (ToString (ItemTriggerConfig.from_value c) @ ''=>'')) (JStr '''');
                transition = (if ToBoolean (ItemTriggerConfig.to_value c)
                              then JStr (ToString (js_or transition (JStr ''=>''))
                                         @ ToString (ItemTriggerConfig.to_value c))
                              else transition)
            in Inr (ToString (item_name c) @ '' '' @ ToString transition @ ''/'' @ delta_marker))
         else
           (let transition = ''changed'';
                transition = (if ToBoolean (ItemTriggerConfig.from_value c)
                              then transition @ '' from '' @ ToString (ItemTriggerConfig.from_value c)
                              else transition);
                transition = (if ToBoolean (ItemTriggerConfig.to_value c)
                              then transition @ '' to '' @ ToString (ItemTriggerConfig.to_value c)
                              else transition)
            in Inr (ToString (item_name c) @ '' '' @ transition)))
      else if ItemTriggerConfig.op_type c = JStr ''receivedCommand'' then
        Inr (if compact then ToString (item_name c) @ ''/'' @ command_marker
             else type c @ '' '' @ ToString (item_name c) @ '' received command'')
      else if ItemTriggerConfig.op_type c = JStr ''receivedUpdate'' then
        Inr (if compact then ToString (item_name c) @ ''/'' @ update_marker
             else type c @ '' '' @ ToString (item_name c) @ '' received update'')
      else Inl (throw_error err (''Unknown operation type: '' @ ToString (ItemTriggerConfig.op_type c))))"

definition ItemTriggerConfig_toOHTriggers ::
  "(string \<Rightarrow> exn) option \<Rightarrow> ItemTriggerConfig \<Rightarrow> exn + oh_trigger list" where
  "ItemTriggerConfig_toOHTriggers err c =
     (if type c = ''memberOf'' then
        (if ItemTriggerConfig.op_type c = JStr ''changed'' then
           Inr [GroupStateChangeTrigger (item_name c) (ItemTriggerConfig.from_value c)
                  (ItemTriggerConfig.to_value c)]
         else if ItemTriggerConfig.op_type c = JStr ''receivedCommand'' then
           Inr [GroupCommandTrigger (item_name c) (ItemTriggerConfig.to_value c)]
         else if ItemTriggerConfig.op_type c = JStr ''receivedUpdate'' then
           Inr [GroupStateUpdateTrigger (item_name c) (ItemTriggerConfig.to_value c)]
         else Inl (throw_error err
                     (''Unknown operation type: '' @ ToString (ItemTriggerConfig.op_type c))))
      else
        (if ItemTriggerConfig.op_type c = JStr ''changed'' then
           Inr [ItemStateChangeTrigger (item_name c) (ItemTriggerConfig.from_value c)
                  (ItemTriggerConfig.to_value c)]
         else if ItemTriggerConfig.op_type c = JStr ''receivedCommand'' then
           Inr [ItemCommandTrigger (item_name c) (ItemTriggerConfig.to_value c)]
         else if ItemTriggerConfig.op_type c = JStr ''receivedUpdate'' then
           Inr [ItemStateUpdateTrigger (item_name c) (ItemTriggerConfig.to_value c)]
         else Inl (throw_error err
                     (''Unknown operation type: '' @ ToString (ItemTriggerConfig.op_type c)))))"

text \<open>
  The invocation arguments of a rule callback are an object: a map from property names to
  values. Reading a property that is absent gives \<^verbatim>\<open>undefined\<close>.
\<close>

type_synonym jsobject = "string \<rightharpoonup> jsval"

definition get_prop :: "jsobject \<Rightarrow> string \<Rightarrow> jsval" where
  "get_prop obj k = (case obj k of None \<Rightarrow> JUndefined | Some v \<Rightarrow> v)"

definition getReceivedCommand :: "jsobject \<Rightarrow> jsval" where
  "getReceivedCommand args = get_prop args ''receivedCommand''"

text \<open>
  \<^verbatim>\<open>_executeHook\<close>: \<open>None\<close> is \<^verbatim>\<open>null\<close>. The object literal \<^verbatim>\<open>{...args, it}\<close> copies
  the properties of \<^verbatim>\<open>args\<close> and then sets the property \<^verbatim>\<open>it\<close>.
\<close>

definition ItemTriggerConfig_executeHook ::
  "ItemTriggerConfig \<Rightarrow> ((jsobject \<Rightarrow> 'r) \<Rightarrow> jsobject \<Rightarrow> 'r) option" where
  "ItemTriggerConfig_executeHook c =
     (if ItemTriggerConfig.op_type c = JStr ''receivedCommand''
      then Some (\<lambda>next args. let it = getReceivedCommand args in next (args(''it'' \<mapsto> it)))
      else None)"


subsection \<open>ThingTriggerConfig\<close>

definition ThingTriggerConfig_constructor :: "jsval \<Rightarrow> jsarg \<Rightarrow> ThingTriggerConfig" where
  "ThingTriggerConfig_constructor uid tb =
     \<lparr>triggerBuilder = tb, thingUID = uid, ThingTriggerConfig.op_type = JUndefined,
      ThingTriggerConfig.to_value = JUndefined, ThingTriggerConfig.from_value = JUndefined\<rparr>"

definition ThingTriggerConfig_complete :: "ThingTriggerConfig \<Rightarrow> bool" where
  "ThingTriggerConfig_complete c = (ThingTriggerConfig.op_type c \<noteq> JUndefined)"

definition ThingTriggerConfig_changed :: "ThingTriggerConfig \<Rightarrow> ThingTriggerConfig" where
  "ThingTriggerConfig_changed c = c\<lparr>ThingTriggerConfig.op_type := JStr ''changed''\<rparr>"

definition ThingTriggerConfig_updated :: "ThingTriggerConfig \<Rightarrow> ThingTriggerConfig" where
  "ThingTriggerConfig_updated c = c\<lparr>ThingTriggerConfig.op_type := JStr ''updated''\<rparr>"

definition ThingTriggerConfig_from ::
  "jsval \<Rightarrow> ThingTriggerConfig \<Rightarrow> exn + ThingTriggerConfig" where
  "ThingTriggerConfig_from v c =
     (if \<not> loose_eq_text (ThingTriggerConfig.op_type c) ''changed''
      then Inl (Thrown (JStr ''.from(..) only available for .changed()''))
      else Inr (c\<lparr>ThingTriggerConfig.from_value := v\<rparr>))"

definition ThingTriggerConfig_to :: "jsval \<Rightarrow> ThingTriggerConfig \<Rightarrow> ThingTriggerConfig" where
  "ThingTriggerConfig_to v c = c\<lparr>ThingTriggerConfig.to_value := v\<rparr>"

definition ThingTriggerConfig_toOHTriggers ::
  "(string \<Rightarrow> exn) option \<Rightarrow> ThingTriggerConfig \<Rightarrow> exn + oh_trigger list" where
  "ThingTriggerConfig_toOHTriggers err c =
     (if ThingTriggerConfig.op_type c = JStr ''changed'' then
        Inr [ThingStatusChangeTrigger (thingUID c) (ThingTriggerConfig.to_value c)
               (ThingTriggerConfig.from_value c)]
      else if ThingTriggerConfig.op_type c = JStr ''updated'' then
        Inr [ThingStatusUpdateTrigger (thingUID c) (ThingTriggerConfig.to_value c)]
      else Inl (throw_error err
                  (''Unknown operation type: '' @ ToString (ThingTriggerConfig.op_type c))))"


subsection \<open>SystemTriggerConfig\<close>

definition SystemTriggerConfig_constructor :: "jsarg \<Rightarrow> SystemTriggerConfig" where
  "SystemTriggerConfig_constructor tb = \<lparr>triggerBuilder = tb, level = JUndefined\<rparr>"

definition SystemTriggerConfig_toOHTriggers :: "SystemTriggerConfig \<Rightarrow> oh_trigger list" where
  "SystemTriggerConfig_toOHTriggers c = [SystemStartlevelTrigger (level c)]"

definition SystemTriggerConfig_complete :: "SystemTriggerConfig \<Rightarrow> bool" where
  "SystemTriggerConfig_complete c = (level c \<noteq> JUndefined)"

definition SystemTriggerConfig_startLevel ::
  "jsval \<Rightarrow> SystemTriggerConfig \<Rightarrow> SystemTriggerConfig" where
  "SystemTriggerConfig_startLevel l c = c\<lparr>level := l\<rparr>"

definition SystemTriggerConfig_rulesLoaded :: "SystemTriggerConfig \<Rightarrow> SystemTriggerConfig" where
  "SystemTriggerConfig_rulesLoaded c = SystemTriggerConfig_startLevel (JNum 40) c"

definition SystemTriggerConfig_ruleEngineStarted ::
  "SystemTriggerConfig \<Rightarrow> SystemTriggerConfig" where
  "SystemTriggerConfig_ruleEngineStarted c = SystemTriggerConfig_startLevel (JNum 50) c"

definition SystemTriggerConfig_userInterfacesStarted ::
  "SystemTriggerConfig \<Rightarrow> SystemTriggerConfig" where
  "SystemTriggerConfig_userInterfacesStarted c = SystemTriggerConfig_startLevel (JNum 70) c"

definition SystemTriggerConfig_thingsInitialized ::
  "SystemTriggerConfig \<Rightarrow> SystemTriggerConfig" where
  "SystemTriggerConfig_thingsInitialized c = SystemTriggerConfig_startLevel (JNum 80) c"

definition SystemTriggerConfig_startupComplete ::
  "SystemTriggerConfig \<Rightarrow> SystemTriggerConfig" where
  "SystemTriggerConfig_startupComplete c = SystemTriggerConfig_startLevel (JNum 100) c"


section \<open>Objects, references and the builder\<close>

text \<open>
  Configurations are mutable objects shared between the caller, the builder's
  \<^verbatim>\<open>currentTigger\<close> slot and the rule builder's collection, so they live in a store and
  are passed around as references (indices into the store).
\<close>

datatype conf =
    Channel ChannelTriggerConfig
  | Cron CronTriggerConfig
  | Item ItemTriggerConfig
  | Thing ThingTriggerConfig
  | System SystemTriggerConfig

type_synonym ref = nat

text \<open>
  Modelled from the spec: the owning rule builder and its \<^verbatim>\<open>addTrigger\<close> are not in
  \<^verbatim>\<open>src/\<close>. The spec (section 6) says that \<^verbatim>\<open>addTrigger(triggerConf)\<close> appends to an
  ordered collection, returns nothing and rejects no argument. An entry is the value it
  was passed: a reference, or \<open>None\<close> for \<^verbatim>\<open>undefined\<close>.
\<close>

record RuleBuilder =
  triggers :: "ref option list"

definition addTrigger :: "ref option \<Rightarrow> RuleBuilder \<Rightarrow> RuleBuilder" where
  "addTrigger t rb = rb\<lparr>triggers := triggers rb @ [t]\<rparr>"

text \<open>
  Modelled from the spec: the constructors \<^verbatim>\<open>operations.OperationBuilder\<close> and
  \<^verbatim>\<open>conditions.ConditionBuilder\<close> are not in \<^verbatim>\<open>src/\<close>. The spec (section 6) says each
  takes \<^verbatim>\<open>(ruleBuilder, fn)\<close> and returns a chain-continuation object, opaque beyond that.
  The rule builder it refers to is the one of the session.
\<close>

datatype 'f continuation = OperationBuilder 'f | ConditionBuilder 'f

text \<open>
  The state of one rule-definition session: the store of configurations and the fields of
  its \<^verbatim>\<open>TriggerBuilder\<close>. The field \<open>builder\<close> is \<open>None\<close> when the constructor was given no
  rule builder; \<open>currentTigger\<close> (the source's spelling) is \<open>None\<close> until \<^verbatim>\<open>_setTrigger\<close>
  assigns it.
\<close>

record world =
  heap :: "conf list"
  builder :: "RuleBuilder option"
  currentTigger :: "ref option"

definition TriggerBuilder_constructor :: "RuleBuilder option \<Rightarrow> world" where
  "TriggerBuilder_constructor b = \<lparr>heap = [], builder = b, currentTigger = None\<rparr>"

definition bind_exn :: "exn + 'a \<Rightarrow> ('a \<Rightarrow> exn + 'b) \<Rightarrow> exn + 'b" where
  "bind_exn m f = (case m of Inl e \<Rightarrow> Inl e | Inr x \<Rightarrow> f x)"

text \<open>\<^verbatim>\<open>new C(...)\<close>: the object gets a fresh reference.\<close>

definition alloc :: "conf \<Rightarrow> world \<Rightarrow> ref \<times> world" where
  "alloc c w = (length (heap w), w\<lparr>heap := heap w @ [c]\<rparr>)"

text \<open>
  A call \<^verbatim>\<open>r.m(...)\<close> of a method that updates its receiver and returns \<^verbatim>\<open>this\<close>: the
  result is the receiver's reference and the store with the object replaced. The builder
  hands out references of stored objects only; a reference outside the store is reported
  as an error.
\<close>

definition call_method :: "(conf \<Rightarrow> exn + conf) \<Rightarrow> ref \<Rightarrow> world \<Rightarrow> exn + ref \<times> world" where
  "call_method m r w =
     (if r < length (heap w)
      then bind_exn (m (heap w ! r)) (\<lambda>c. Inr (r, w\<lparr>heap := (heap w)[r := c]\<rparr>))
      else Inl (TypeError ''no such object''))"

text \<open>A call of a method that only reads its receiver.\<close>

definition call_query :: "(conf \<Rightarrow> exn + 'a) \<Rightarrow> ref \<Rightarrow> world \<Rightarrow> exn + 'a" where
  "call_query q r w =
     (if r < length (heap w) then q (heap w ! r) else Inl (TypeError ''no such object''))"


subsection \<open>Method lookup by the class of the receiver\<close>

fun method_to :: "jsval \<Rightarrow> conf \<Rightarrow> exn + conf" where
  "method_to v (Channel c) = Inr (Channel (ChannelTriggerConfig_to v c))"
| "method_to v (Item c) = Inr (Item (ItemTriggerConfig_to v c))"
| "method_to v (Thing c) = Inr (Thing (ThingTriggerConfig_to v c))"
| "method_to v c = Inl (TypeError ''to is not a function'')"

fun method_triggered :: "jsval \<Rightarrow> conf \<Rightarrow> exn + conf" where
  "method_triggered v (Channel c) = Inr (Channel (ChannelTriggerConfig_triggered v c))"
| "method_triggered v c = Inl (TypeError ''triggered is not a function'')"

fun method_from :: "jsval \<Rightarrow> conf \<Rightarrow> exn + conf" where
  "method_from v (Item c) = map_sum id Item (ItemTriggerConfig_from v c)"
| "method_from v (Thing c) = map_sum id Thing (ThingTriggerConfig_from v c)"
| "method_from v c = Inl (TypeError ''from is not a function'')"

fun method_changed :: "conf \<Rightarrow> exn + conf" where
  "method_changed (Item c) = Inr (Item (ItemTriggerConfig_changed c))"
| "method_changed (Thing c) = Inr (Thing (ThingTriggerConfig_changed c))"
| "method_changed c = Inl (TypeError ''changed is not a function'')"

fun method_receivedCommand :: "conf \<Rightarrow> exn + conf" where
  "method_receivedCommand (Item c) = Inr (Item (ItemTriggerConfig_receivedCommand c))"
| "method_receivedCommand c = Inl (TypeError ''receivedCommand is not a function'')"

fun method_receivedUpdate :: "conf \<Rightarrow> exn + conf" where
  "method_receivedUpdate (Item c) = Inr (Item (ItemTriggerConfig_receivedUpdate c))"
| "method_receivedUpdate c = Inl (TypeError ''receivedUpdate is not a function'')"

fun method_updated :: "conf \<Rightarrow> exn + conf" where
  "method_updated (Thing c) = Inr (Thing (ThingTriggerConfig_updated c))"
| "method_updated c = Inl (TypeError ''updated is not a function'')"

fun method_system :: "(SystemTriggerConfig \<Rightarrow> SystemTriggerConfig) \<Rightarrow> conf \<Rightarrow> exn + conf" where
  "method_system m (System c) = Inr (System (m c))"
| "method_system m c = Inl (TypeError ''not a function'')"

fun method_complete :: "conf \<Rightarrow> exn + bool" where
  "method_complete (Channel c) = Inr (ChannelTriggerConfig_complete c)"
| "method_complete (Cron c) = Inr (CronTriggerConfig_complete c)"
| "method_complete (Item c) = Inr (ItemTriggerConfig_complete c)"
| "method_complete (Thing c) = Inr (ThingTriggerConfig_complete c)"
| "method_complete (System c) = Inr (SystemTriggerConfig_complete c)"

fun method_toOHTriggers :: "(string \<Rightarrow> exn) option \<Rightarrow> conf \<Rightarrow> exn + oh_trigger list" where
  "method_toOHTriggers err (Channel c) = Inr (ChannelTriggerConfig_toOHTriggers c)"
| "method_toOHTriggers err (Cron c) = Inr (CronTriggerConfig_toOHTriggers c)"
| "method_toOHTriggers err (Item c) = ItemTriggerConfig_toOHTriggers err c"
| "method_toOHTriggers err (Thing c) = ThingTriggerConfig_toOHTriggers err c"
| "method_toOHTriggers err (System c) = Inr (SystemTriggerConfig_toOHTriggers c)"

fun conf_triggerBuilder :: "conf \<Rightarrow> jsarg" where
  "conf_triggerBuilder (Channel c) = triggerBuilder c"
| "conf_triggerBuilder (Cron c) = triggerBuilder c"
| "conf_triggerBuilder (Item c) = triggerBuilder c"
| "conf_triggerBuilder (Thing c) = triggerBuilder c"
| "conf_triggerBuilder (System c) = triggerBuilder c"


subsection \<open>TriggerBuilder\<close>

definition TriggerBuilder_setTrigger :: "ref \<Rightarrow> world \<Rightarrow> ref \<times> world" where
  "TriggerBuilder_setTrigger trigger w = (trigger, w\<lparr>currentTigger := Some trigger\<rparr>)"

definition TriggerBuilder_or :: "world \<Rightarrow> exn + world" where
  "TriggerBuilder_or w =
     (case builder w of
        None \<Rightarrow> Inl (TypeError ''cannot read properties of undefined'')
      | Some rb \<Rightarrow> Inr (w\<lparr>builder := Some (addTrigger (currentTigger w) rb)\<rparr>))"

definition TriggerBuilder_then :: "'f \<Rightarrow> world \<Rightarrow> exn + 'f continuation \<times> world" where
  "TriggerBuilder_then fn w = bind_exn (TriggerBuilder_or w) (\<lambda>w'. Inr (OperationBuilder fn, w'))"

definition TriggerBuilder_if :: "'f \<Rightarrow> world \<Rightarrow> exn + 'f continuation \<times> world" where
  "TriggerBuilder_if fn w = bind_exn (TriggerBuilder_or w) (\<lambda>w'. Inr (ConditionBuilder fn, w'))"

definition TriggerBuilder_channel :: "jsval \<Rightarrow> world \<Rightarrow> ref \<times> world" where
  "TriggerBuilder_channel s w =
     (let (r, w') = alloc (Channel (ChannelTriggerConfig_constructor s Builder)) w
      in TriggerBuilder_setTrigger r w')"

definition TriggerBuilder_cron :: "jsval \<Rightarrow> world \<Rightarrow> ref \<times> world" where
  "TriggerBuilder_cron s w =
     (let (r, w') = alloc (Cron (CronTriggerConfig_constructor s Builder)) w
      in TriggerBuilder_setTrigger r w')"

definition TriggerBuilder_item :: "jsarg \<Rightarrow> world \<Rightarrow> exn + ref \<times> world" where
  "TriggerBuilder_item s w =
     bind_exn (ItemTriggerConfig_constructor s (Prim (JBool False)) Builder) (\<lambda>c.
       let (r, w') = alloc (Item c) w in Inr (TriggerBuilder_setTrigger r w'))"

definition TriggerBuilder_memberOf :: "jsarg \<Rightarrow> world \<Rightarrow> exn + ref \<times> world" where
  "TriggerBuilder_memberOf s w =
     bind_exn (ItemTriggerConfig_constructor s (Prim (JBool True)) Builder) (\<lambda>c.
       let (r, w') = alloc (Item c) w in Inr (TriggerBuilder_setTrigger r w'))"

definition TriggerBuilder_thing :: "jsval \<Rightarrow> world \<Rightarrow> ref \<times> world" where
  "TriggerBuilder_thing s w =
     (let (r, w') = alloc (Thing (ThingTriggerConfig_constructor s Builder)) w
      in TriggerBuilder_setTrigger r w')"

text \<open>
  \<^verbatim>\<open>timeOfDay(s)\<close> evaluates \<^verbatim>\<open>new ItemTriggerConfig('vTimeOfDay', this)\<close>: the
  constructor's parameters are \<^verbatim>\<open>(itemOrName, isGroup, triggerBuilder)\<close>, so the builder
  object arrives as \<^verbatim>\<open>isGroup\<close> and \<^verbatim>\<open>triggerBuilder\<close> is \<^verbatim>\<open>undefined\<close>. Then
  \<^verbatim>\<open>.changed().to(s)\<close> runs on the new object, and the result becomes the current trigger.
\<close>

definition TriggerBuilder_timeOfDay :: "jsval \<Rightarrow> world \<Rightarrow> exn + ref \<times> world" where
  "TriggerBuilder_timeOfDay s w =
     bind_exn (ItemTriggerConfig_constructor (Prim (JStr ''vTimeOfDay'')) Builder (Prim JUndefined))
       (\<lambda>c. let (r, w') = alloc (Item c) w in
         bind_exn (call_method method_changed r w') (\<lambda>(r, w').
         bind_exn (call_method (method_to s) r w') (\<lambda>(r, w').
         Inr (TriggerBuilder_setTrigger r w'))))"

definition TriggerBuilder_system :: "world \<Rightarrow> ref \<times> world" where
  "TriggerBuilder_system w =
     (let (r, w') = alloc (System (SystemTriggerConfig_constructor Builder)) w
      in TriggerBuilder_setTrigger r w')"


subsection \<open>TriggerConf: the combinators of a configuration\<close>

text \<open>
  \<^verbatim>\<open>or()\<close>, \<^verbatim>\<open>then(fn)\<close> and \<^verbatim>\<open>if(fn)\<close> forward to the object in the field
  \<^verbatim>\<open>triggerBuilder\<close>. Reading a method of \<^verbatim>\<open>undefined\<close> or \<^verbatim>\<open>null\<close> raises; any other
  value that is not the builder has no such method.
\<close>

definition with_triggerBuilder :: "string \<Rightarrow> ref \<Rightarrow> world \<Rightarrow> (world \<Rightarrow> exn + 'a) \<Rightarrow> exn + 'a" where
  "with_triggerBuilder name r w k =
     bind_exn (call_query (\<lambda>c. Inr (conf_triggerBuilder c)) r w) (\<lambda>tb.
       case tb of
         Builder \<Rightarrow> k w
       | Prim JUndefined \<Rightarrow> Inl (TypeError ''cannot read properties of undefined'')
       | Prim JNull \<Rightarrow> Inl (TypeError ''cannot read properties of null'')
       | _ \<Rightarrow> Inl (TypeError (name @ '' is not a function'')))"

definition TriggerConf_or :: "ref \<Rightarrow> world \<Rightarrow> exn + world" where
  "TriggerConf_or r w = with_triggerBuilder ''_or'' r w TriggerBuilder_or"

definition TriggerConf_then :: "'f \<Rightarrow> ref \<Rightarrow> world \<Rightarrow> exn + 'f continuation \<times> world" where
  "TriggerConf_then fn r w = with_triggerBuilder ''_then'' r w (TriggerBuilder_then fn)"

definition TriggerConf_if :: "'f \<Rightarrow> ref \<Rightarrow> world \<Rightarrow> exn + 'f continuation \<times> world" where
  "TriggerConf_if fn r w = with_triggerBuilder ''_if'' r w (TriggerBuilder_if fn)"


section \<open>Sessions and objects used as examples\<close>

text \<open>A builder that was just constructed on a rule builder with no trigger yet.\<close>

definition fresh_world :: world where
  "fresh_world = TriggerBuilder_constructor (Some \<lparr>triggers = []\<rparr>)"

text \<open>The expression \<^verbatim>\<open>channel(a).triggered(x).or().cron(e)\<close> on the builder.\<close>

definition channel_triggered_or_cron ::
  "jsval \<Rightarrow> jsval \<Rightarrow> jsval \<Rightarrow> world \<Rightarrow> exn + ref \<times> world" where
  "channel_triggered_or_cron a x e w =
     (let (r, w) = TriggerBuilder_channel a w in
      bind_exn (call_method (method_triggered x) r w) (\<lambda>(r, w).
      bind_exn (TriggerConf_or r w) (\<lambda>w.
      Inr (TriggerBuilder_cron e w))))"

text \<open>The expression \<^verbatim>\<open>item(n).changed().to(p)\<close> on the builder.\<close>

definition item_changed_to :: "jsarg \<Rightarrow> jsval \<Rightarrow> world \<Rightarrow> exn + ref \<times> world" where
  "item_changed_to n p w =
     bind_exn (TriggerBuilder_item n w) (\<lambda>(r, w).
     bind_exn (call_method method_changed r w) (\<lambda>(r, w).
     call_method (method_to p) r w))"

text \<open>The object that \<^verbatim>\<open>item('x').changed()\<close> leaves in the store.\<close>

definition changed_item :: ItemTriggerConfig where
  "changed_item = \<lparr>triggerBuilder = Builder, type = ''item'', item_name = JStr ''x'',
      ItemTriggerConfig.op_type = JStr ''changed'',
      ItemTriggerConfig.to_value = JUndefined, ItemTriggerConfig.from_value = JUndefined\<rparr>"

text \<open>The object that \<^verbatim>\<open>thing('zwave:1').updated()\<close> leaves in the store.\<close>

definition updated_thing :: ThingTriggerConfig where
  "updated_thing = \<lparr>triggerBuilder = Builder, thingUID = JStr ''zwave:1'',
      ThingTriggerConfig.op_type = JStr ''updated'',
      ThingTriggerConfig.to_value = JUndefined, ThingTriggerConfig.from_value = JUndefined\<rparr>"

text \<open>The object that \<^verbatim>\<open>item('Lamp').receivedCommand()\<close> leaves in the store.\<close>

definition command_item :: ItemTriggerConfig where
  "command_item = \<lparr>triggerBuilder = Builder, type = ''item'', item_name = JStr ''Lamp'',
      ItemTriggerConfig.op_type = JStr ''receivedCommand'',
      ItemTriggerConfig.to_value = JUndefined, ItemTriggerConfig.from_value = JUndefined\<rparr>"

text \<open>The arguments \<^verbatim>\<open>{it: 1, receivedCommand: 'ON'}\<close>.\<close>

definition args_with_it :: jsobject where
  "args_with_it = [''it'' \<mapsto> JNum 1, ''receivedCommand'' \<mapsto> JStr ''ON'']"

text \<open>The factories of the group family that \<^verbatim>\<open>ItemTriggerConfig._toOHTriggers\<close> calls.\<close>

fun is_group_trigger :: "oh_trigger \<Rightarrow> bool" where
  "is_group_trigger (GroupStateChangeTrigger n f t) = True"
| "is_group_trigger (GroupCommandTrigger n t) = True"
| "is_group_trigger (GroupStateUpdateTrigger n t) = True"
| "is_group_trigger t = False"


section \<open>Properties\<close>

lemma loose_eq_text_iff: "loose_eq_text v s \<longleftrightarrow> v = JStr s"
  by (cases v) auto

lemmas store_defs = alloc_def TriggerBuilder_setTrigger_def bind_exn_def call_method_def
  call_query_def

lemmas starter_defs = TriggerBuilder_item_def TriggerBuilder_memberOf_def
  ItemTriggerConfig_constructor_def store_defs

lemmas chain_defs = channel_triggered_or_cron_def TriggerBuilder_channel_def
  TriggerBuilder_cron_def store_defs ChannelTriggerConfig_constructor_def
  CronTriggerConfig_constructor_def ChannelTriggerConfig_triggered_def TriggerConf_or_def
  with_triggerBuilder_def TriggerBuilder_or_def addTrigger_def

lemma fresh_world_simps:
  "fresh_world = \<lparr>heap = [], builder = Some \<lparr>triggers = []\<rparr>, currentTigger = None\<rparr>"
  by (simp add: fresh_world_def TriggerBuilder_constructor_def)


subsection \<open>timeOfDay\<close>

text \<open>
  Claim C1 says that \<^verbatim>\<open>timeOfDay(p)\<close> builds the single-item configuration that
  \<^verbatim>\<open>item('vTimeOfDay').changed().to(p)\<close> builds. The code does not: for every period
  \<open>p\<close> and every session \<open>w\<close>, the configuration of \<^verbatim>\<open>timeOfDay(p)\<close> has the entity name
  \<^verbatim>\<open>'vTimeOfDay'\<close>, the operation kind \<^verbatim>\<open>'changed'\<close> and the to-value \<open>p\<close>, but its type is
  \<^verbatim>\<open>'memberOf'\<close> and its back-reference is \<^verbatim>\<open>undefined\<close>, where the item chain gives the
  type \<^verbatim>\<open>'item'\<close> and the builder. So it converts to a group trigger, and its \<^verbatim>\<open>or()\<close>
  raises a TypeError.
\<close>

theorem timeOfDay_is_group_trigger:
  "TriggerBuilder_timeOfDay p w
     = Inr (length (heap w),
            w\<lparr>heap := heap w @ [Item \<lparr>triggerBuilder = Prim JUndefined, type = ''memberOf'',
                                       item_name = JStr ''vTimeOfDay'',
                                       ItemTriggerConfig.op_type = JStr ''changed'',
                                       ItemTriggerConfig.to_value = p,
                                       ItemTriggerConfig.from_value = JUndefined\<rparr>],
              currentTigger := Some (length (heap w))\<rparr>)
   \<and> item_changed_to (Prim (JStr ''vTimeOfDay'')) p w
     = Inr (length (heap w),
            w\<lparr>heap := heap w @ [Item \<lparr>triggerBuilder = Builder, type = ''item'',
                                       item_name = JStr ''vTimeOfDay'',
                                       ItemTriggerConfig.op_type = JStr ''changed'',
                                       ItemTriggerConfig.to_value = p,
                                       ItemTriggerConfig.from_value = JUndefined\<rparr>],
              currentTigger := Some (length (heap w))\<rparr>)
   \<and> bind_exn (TriggerBuilder_timeOfDay p w) (\<lambda>(r, w). call_query (method_toOHTriggers err) r w)
     = Inr [GroupStateChangeTrigger (JStr ''vTimeOfDay'') JUndefined p]
   \<and> bind_exn (TriggerBuilder_timeOfDay p w) (\<lambda>(r, w). TriggerConf_or r w)
     = Inl (TypeError ''cannot read properties of undefined'')"
  by (simp add: TriggerBuilder_timeOfDay_def item_changed_to_def starter_defs
      ItemTriggerConfig_changed_def ItemTriggerConfig_to_def ItemTriggerConfig_toOHTriggers_def
      TriggerConf_or_def with_triggerBuilder_def)


subsection \<open>describe\<close>

text \<open>
  Claim C2 says that for the operation kind \<^verbatim>\<open>'changed'\<close> the result of
  \<^verbatim>\<open>describe(false)\<close> contains the word "changed", that \<^verbatim>\<open>describe(true)\<close> contains the
  delta marker, and that the compact form has an arrow exactly when a from-value or a
  to-value is set. On the object of \<^verbatim>\<open>item('x').changed()\<close> the call \<^verbatim>\<open>describe(true)\<close>
  runs the arrow function that the constructor assigned and returns the same text as
  \<^verbatim>\<open>describe(false)\<close>, without a delta marker; the shadowed method of the class would
  return an arrow although neither value is set.
\<close>

theorem describe_compact_of_changed:
  "bind_exn (TriggerBuilder_item (Prim (JStr ''x'')) fresh_world) (\<lambda>(r, w).
     call_method method_changed r w)
     = Inr (0, fresh_world\<lparr>heap := [Item changed_item], currentTigger := Some 0\<rparr>)
   \<and> ItemTriggerConfig_describe changed_item True = ''item x changed''
   \<and> ItemTriggerConfig_describe changed_item False = ''item x changed''
   \<and> ItemTriggerConfig_prototype_describe err changed_item True
        = Inr (''x undefined=>/'' @ delta_marker)"
  by (simp add: starter_defs fresh_world_simps changed_item_def ItemTriggerConfig_changed_def
      ItemTriggerConfig_describe_def ItemTriggerConfig_prototype_describe_def js_or_def)

subsection \<open>The execution hook\<close>

text \<open>
  Claim C3, as amended: for an ItemTriggerConfig with operation kind
  \<^verbatim>\<open>'receivedCommand'\<close>, \<^verbatim>\<open>_executeHook()\<close> returns a function that calls \<^verbatim>\<open>next\<close> on an
  object in which \<^verbatim>\<open>it\<close> is bound to \<^verbatim>\<open>args.receivedCommand\<close> and every key other than
  \<^verbatim>\<open>it\<close> has the value it has in \<^verbatim>\<open>args\<close>; for every other operation kind (so for
  \<^verbatim>\<open>'changed'\<close> and \<^verbatim>\<open>'receivedUpdate'\<close>) it returns \<^verbatim>\<open>null\<close>.
\<close>

theorem executeHook_binds_it:
  "(ItemTriggerConfig.op_type c = JStr ''receivedCommand'' \<longrightarrow>
      (\<exists>h :: (jsobject \<Rightarrow> 'r) \<Rightarrow> jsobject \<Rightarrow> 'r.
         ItemTriggerConfig_executeHook c = Some h
         \<and> (\<forall>args. \<exists>passed.
               (\<forall>next. h next args = next passed)
               \<and> passed ''it'' = Some (get_prop args ''receivedCommand'')
               \<and> (\<forall>k. k \<noteq> ''it'' \<longrightarrow> passed k = args k))))
   \<and> (ItemTriggerConfig.op_type c \<noteq> JStr ''receivedCommand'' \<longrightarrow>
        (ItemTriggerConfig_executeHook c :: ((jsobject \<Rightarrow> 'r) \<Rightarrow> jsobject \<Rightarrow> 'r) option) = None)"
proof (intro conjI impI)
  assume rc: "ItemTriggerConfig.op_type c = JStr ''receivedCommand''"
  let ?h = "\<lambda>(next :: jsobject \<Rightarrow> 'r) args.
              next (args(''it'' \<mapsto> get_prop args ''receivedCommand''))"
  have "ItemTriggerConfig_executeHook c = Some ?h"
    using rc by (simp add: ItemTriggerConfig_executeHook_def getReceivedCommand_def)
  moreover have "\<forall>args. \<exists>passed. (\<forall>next. ?h next args = next passed)
      \<and> passed ''it'' = Some (get_prop args ''receivedCommand'')
      \<and> (\<forall>k. k \<noteq> ''it'' \<longrightarrow> passed k = args k)"
  proof
    fix args :: jsobject
    show "\<exists>passed. (\<forall>next. ?h next args = next passed)
      \<and> passed ''it'' = Some (get_prop args ''receivedCommand'')
      \<and> (\<forall>k. k \<noteq> ''it'' \<longrightarrow> passed k = args k)"
      by (rule exI [of _ "args(''it'' \<mapsto> get_prop args ''receivedCommand'')"]) simp
  qed
  ultimately show "\<exists>h :: (jsobject \<Rightarrow> 'r) \<Rightarrow> jsobject \<Rightarrow> 'r.
         ItemTriggerConfig_executeHook c = Some h
         \<and> (\<forall>args. \<exists>passed.
               (\<forall>next. h next args = next passed)
               \<and> passed ''it'' = Some (get_prop args ''receivedCommand'')
               \<and> (\<forall>k. k \<noteq> ''it'' \<longrightarrow> passed k = args k))"
    by blast
next
  assume "ItemTriggerConfig.op_type c \<noteq> JStr ''receivedCommand''"
  then show "(ItemTriggerConfig_executeHook c
               :: ((jsobject \<Rightarrow> 'r) \<Rightarrow> jsobject \<Rightarrow> 'r) option) = None"
    by (simp add: ItemTriggerConfig_executeHook_def)
qed

text \<open>
  The theorem at \<^verbatim>\<open>item('Lamp').receivedCommand()\<close> with the arguments
  \<^verbatim>\<open>{it: 1, receivedCommand: 'ON'}\<close>, and at the same object after \<^verbatim>\<open>changed()\<close>.
\<close>

theorem executeHook_binds_it_witness:
  "ItemTriggerConfig.op_type command_item = JStr ''receivedCommand''
   \<and> the (ItemTriggerConfig_executeHook command_item) id args_with_it ''receivedCommand''
       = Some (JStr ''ON'')
   \<and> ItemTriggerConfig.op_type (ItemTriggerConfig_changed command_item) \<noteq> JStr ''receivedCommand''
   \<and> (ItemTriggerConfig_executeHook (ItemTriggerConfig_changed command_item)
        :: ((jsobject \<Rightarrow> jsobject) \<Rightarrow> jsobject \<Rightarrow> jsobject) option) = None"
proof -
  have rc: "ItemTriggerConfig.op_type command_item = JStr ''receivedCommand''"
    by (simp add: command_item_def)
  have ch: "ItemTriggerConfig.op_type (ItemTriggerConfig_changed command_item)
              \<noteq> JStr ''receivedCommand''"
    by (simp add: ItemTriggerConfig_changed_def)
  from executeHook_binds_it [where c = command_item and 'r = jsobject] rc
  obtain h :: "(jsobject \<Rightarrow> jsobject) \<Rightarrow> jsobject \<Rightarrow> jsobject"
    where h: "ItemTriggerConfig_executeHook command_item = Some h"
      and p: "\<forall>args. \<exists>passed. (\<forall>next. h next args = next passed)
               \<and> passed ''it'' = Some (get_prop args ''receivedCommand'')
               \<and> (\<forall>k. k \<noteq> ''it'' \<longrightarrow> passed k = args k)"
    by blast
  from p obtain passed where "h id args_with_it = id passed"
    and "\<forall>k. k \<noteq> ''it'' \<longrightarrow> passed k = args_with_it k"
    by blast
  then have "h id args_with_it ''receivedCommand'' = args_with_it ''receivedCommand''"
    by simp
  then have "the (ItemTriggerConfig_executeHook command_item) id args_with_it ''receivedCommand''
               = Some (JStr ''ON'')"
    using h by (simp add: args_with_it_def)
  moreover
  from executeHook_binds_it [where c = "ItemTriggerConfig_changed command_item" and 'r = jsobject] ch
  have "(ItemTriggerConfig_executeHook (ItemTriggerConfig_changed command_item)
        :: ((jsobject \<Rightarrow> jsobject) \<Rightarrow> jsobject \<Rightarrow> jsobject) option) = None"
    by blast
  ultimately show ?thesis using rc ch by blast
qed

text \<open>
  Claim C3 as stated fails: the hook of \<^verbatim>\<open>item('Lamp').receivedCommand()\<close> exists, the
  arguments \<^verbatim>\<open>{it: 1, receivedCommand: 'ON'}\<close> have the key \<^verbatim>\<open>it\<close> with value 1, and the
  object passed to \<^verbatim>\<open>next\<close> has \<^verbatim>\<open>'ON'\<close> under that key.
\<close>

theorem executeHook_overwrites_it:
  "ItemTriggerConfig_executeHook command_item
     \<noteq> (None :: ((jsobject \<Rightarrow> jsobject) \<Rightarrow> jsobject \<Rightarrow> jsobject) option)
   \<and> args_with_it ''it'' = Some (JNum 1)
   \<and> the (ItemTriggerConfig_executeHook command_item) id args_with_it ''it'' = Some (JStr ''ON'')"
  by (simp add: ItemTriggerConfig_executeHook_def command_item_def args_with_it_def
      getReceivedCommand_def get_prop_def)


subsection \<open>Registration with the rule builder\<close>

text \<open>
  Claim C4, as amended: on a builder that owns a rule builder,
  \<^verbatim>\<open>channel(a).triggered(x).or().cron(e)\<close> leaves the rule builder's collection extended by
  one entry, the channel configuration; the cron configuration is the builder's current
  trigger, and a following \<^verbatim>\<open>or()\<close> on it registers it, so that the collection then ends
  with the channel configuration followed by the cron configuration.
\<close>

theorem channel_or_cron_then_or:
  assumes "builder w = Some rb"
  shows "channel_triggered_or_cron a x e w
           = Inr (Suc (length (heap w)),
                  w\<lparr>heap := heap w @ [Channel \<lparr>triggerBuilder = Builder, channelName = a,
                                                eventName = js_or x (JStr '''')\<rparr>,
                                       Cron \<lparr>triggerBuilder = Builder, timeStr = e\<rparr>],
                    builder := Some (rb\<lparr>triggers := triggers rb @ [Some (length (heap w))]\<rparr>),
                    currentTigger := Some (Suc (length (heap w)))\<rparr>)
       \<and> bind_exn (channel_triggered_or_cron a x e w) (\<lambda>(r, w). TriggerConf_or r w)
           = Inr (w\<lparr>heap := heap w @ [Channel \<lparr>triggerBuilder = Builder, channelName = a,
                                                eventName = js_or x (JStr '''')\<rparr>,
                                       Cron \<lparr>triggerBuilder = Builder, timeStr = e\<rparr>],
                    builder := Some (rb\<lparr>triggers := triggers rb
                                 @ [Some (length (heap w)), Some (Suc (length (heap w)))]\<rparr>),
                    currentTigger := Some (Suc (length (heap w)))\<rparr>)"
  using assms by (simp add: chain_defs nth_append)

theorem channel_or_cron_then_or_witness:
  "builder fresh_world = Some \<lparr>triggers = []\<rparr>
   \<and> bind_exn (channel_triggered_or_cron (JStr ''a'') (JStr ''x'') (JStr ''0 0 * * * ?'') fresh_world)
        (\<lambda>(r, w). TriggerConf_or r w)
     = Inr \<lparr>heap = [Channel \<lparr>triggerBuilder = Builder, channelName = JStr ''a'',
                               eventName = JStr ''x''\<rparr>,
                      Cron \<lparr>triggerBuilder = Builder, timeStr = JStr ''0 0 * * * ?''\<rparr>],
             builder = Some \<lparr>triggers = [Some 0, Some 1]\<rparr>,
             currentTigger = Some 1\<rparr>"
proof -
  have b: "builder fresh_world = Some \<lparr>triggers = []\<rparr>"
    by (simp add: fresh_world_simps)
  note channel_or_cron_then_or [OF b, of "JStr ''a''" "JStr ''x''" "JStr ''0 0 * * * ?''",
      THEN conjunct2]
  then show ?thesis
    using b by (simp add: fresh_world_simps js_or_def)
qed

text \<open>
  Claim C4 as stated fails: after \<^verbatim>\<open>channel('a').triggered('x').or().cron('0 0 * * * ?')\<close>
  on a fresh builder the collection holds one entry, the reference to the channel
  configuration; the cron configuration is in the store and is the current trigger.
\<close>

theorem channel_or_cron_registers_one:
  "channel_triggered_or_cron (JStr ''a'') (JStr ''x'') (JStr ''0 0 * * * ?'') fresh_world
     = Inr (1, \<lparr>heap = [Channel \<lparr>triggerBuilder = Builder, channelName = JStr ''a'',
                                   eventName = JStr ''x''\<rparr>,
                          Cron \<lparr>triggerBuilder = Builder, timeStr = JStr ''0 0 * * * ?''\<rparr>],
                 builder = Some \<lparr>triggers = [Some 0]\<rparr>,
                 currentTigger = Some 1\<rparr>)"
  by (simp add: chain_defs fresh_world_simps js_or_def nth_append)


subsection \<open>from\<close>

text \<open>
  Claim C5: on an ItemTriggerConfig and on a ThingTriggerConfig, \<^verbatim>\<open>from(v)\<close> raises
  whenever the operation kind is not \<^verbatim>\<open>'changed'\<close> (so also while it is \<^verbatim>\<open>undefined\<close>);
  when it is \<^verbatim>\<open>'changed'\<close>, the call stores \<open>v\<close> as the from-value of the receiver and
  returns the receiver.
\<close>

theorem from_only_after_changed:
  assumes "r < length (heap w)"
  shows "(heap w ! r = Item c \<longrightarrow>
            call_method (method_from v) r w =
              (if ItemTriggerConfig.op_type c = JStr ''changed''
               then Inr (r, w\<lparr>heap := (heap w)[r := Item (c\<lparr>ItemTriggerConfig.from_value := v\<rparr>)]\<rparr>)
               else Inl (Thrown (JStr ''.from(..) only available for .changed()''))))
       \<and> (heap w ! r = Thing t \<longrightarrow>
            call_method (method_from v) r w =
              (if ThingTriggerConfig.op_type t = JStr ''changed''
               then Inr (r, w\<lparr>heap := (heap w)[r := Thing (t\<lparr>ThingTriggerConfig.from_value := v\<rparr>)]\<rparr>)
               else Inl (Thrown (JStr ''.from(..) only available for .changed()''))))"
  using assms
  by (simp add: call_method_def bind_exn_def ItemTriggerConfig_from_def ThingTriggerConfig_from_def
      loose_eq_text_iff)

text \<open>
  The theorem at \<^verbatim>\<open>item('x').changed().from('OFF')\<close>, at the same item before
  \<^verbatim>\<open>changed()\<close>, and at \<^verbatim>\<open>thing('zwave:1').updated().from('OFF')\<close>.
\<close>

theorem from_only_after_changed_witness:
  "call_method (method_from (JStr ''OFF'')) 0 (fresh_world\<lparr>heap := [Item changed_item]\<rparr>)
     = Inr (0, fresh_world\<lparr>heap :=
                 [Item (changed_item\<lparr>ItemTriggerConfig.from_value := JStr ''OFF''\<rparr>)]\<rparr>)
   \<and> call_method (method_from (JStr ''OFF'')) 0
        (fresh_world\<lparr>heap := [Item (changed_item\<lparr>ItemTriggerConfig.op_type := JUndefined\<rparr>)]\<rparr>)
     = Inl (Thrown (JStr ''.from(..) only available for .changed()''))
   \<and> call_method (method_from (JStr ''OFF'')) 0 (fresh_world\<lparr>heap := [Thing updated_thing]\<rparr>)
     = Inl (Thrown (JStr ''.from(..) only available for .changed()''))"
proof -
  have l1: "0 < length (heap (fresh_world\<lparr>heap := [Item changed_item]\<rparr>))"
    by simp
  have l2: "0 < length (heap (fresh_world\<lparr>heap :=
              [Item (changed_item\<lparr>ItemTriggerConfig.op_type := JUndefined\<rparr>)]\<rparr>))"
    by simp
  have l3: "0 < length (heap (fresh_world\<lparr>heap := [Thing updated_thing]\<rparr>))"
    by simp
  have "call_method (method_from (JStr ''OFF'')) 0 (fresh_world\<lparr>heap := [Item changed_item]\<rparr>)
     = Inr (0, fresh_world\<lparr>heap :=
                 [Item (changed_item\<lparr>ItemTriggerConfig.from_value := JStr ''OFF''\<rparr>)]\<rparr>)"
    using from_only_after_changed [OF l1, where c = changed_item and v = "JStr ''OFF''"]
    by (simp add: changed_item_def)
  moreover have "call_method (method_from (JStr ''OFF'')) 0
        (fresh_world\<lparr>heap := [Item (changed_item\<lparr>ItemTriggerConfig.op_type := JUndefined\<rparr>)]\<rparr>)
     = Inl (Thrown (JStr ''.from(..) only available for .changed()''))"
    using from_only_after_changed [OF l2,
        where c = "changed_item\<lparr>ItemTriggerConfig.op_type := JUndefined\<rparr>" and v = "JStr ''OFF''"]
    by simp
  moreover have "call_method (method_from (JStr ''OFF'')) 0
        (fresh_world\<lparr>heap := [Thing updated_thing]\<rparr>)
     = Inl (Thrown (JStr ''.from(..) only available for .changed()''))"
    using from_only_after_changed [OF l3, where t = updated_thing and v = "JStr ''OFF''"]
    by (simp add: updated_thing_def)
  ultimately show ?thesis by simp
qed


subsection \<open>Conversion to engine triggers\<close>

text \<open>
  Claim C6 says that \<^verbatim>\<open>memberOf(g).receivedUpdate()._toOHTriggers()\<close> is one trigger
  built by the group state-update factory, that \<^verbatim>\<open>item(g).receivedUpdate()._toOHTriggers()\<close>
  is one trigger built by the item state-update factory, and that for each of the three
  operation kinds \<^verbatim>\<open>_toOHTriggers\<close> takes a factory of the group family exactly when the
  configuration was created by \<^verbatim>\<open>memberOf\<close>. For the configurations of \<^verbatim>\<open>memberOf\<close> and
  \<^verbatim>\<open>item\<close> the code does so, for every name \<open>g\<close> and each of the three operation kinds.
  It does not for the configuration of \<^verbatim>\<open>timeOfDay(p)\<close>: \<^verbatim>\<open>memberOf\<close> did not create it
  (every configuration of \<^verbatim>\<open>memberOf\<close> refers back to the builder, this one to
  \<^verbatim>\<open>undefined\<close>), and \<^verbatim>\<open>_toOHTriggers\<close> builds its trigger with the group state-change
  factory.
\<close>

theorem toOHTriggers_group_for_timeOfDay:
  "bind_exn (TriggerBuilder_timeOfDay p w) (\<lambda>(r, w).
     call_query (method_toOHTriggers err) r w)
     = Inr [GroupStateChangeTrigger (JStr ''vTimeOfDay'') JUndefined p]
   \<and> is_group_trigger (GroupStateChangeTrigger (JStr ''vTimeOfDay'') JUndefined p)
   \<and> bind_exn (TriggerBuilder_timeOfDay p w) (\<lambda>(r, w).
     call_query (\<lambda>c. Inr (conf_triggerBuilder c)) r w)
     = Inr (Prim JUndefined)
   \<and> bind_exn (TriggerBuilder_memberOf n w') (\<lambda>(r, w).
     call_query (\<lambda>c. Inr (conf_triggerBuilder c)) r w)
     \<noteq> Inr (Prim JUndefined)
   \<and> bind_exn (TriggerBuilder_memberOf (Prim (JStr g)) w) (\<lambda>(r, w).
     bind_exn (call_method method_receivedUpdate r w) (\<lambda>(r, w).
       call_query (method_toOHTriggers err) r w))
     = Inr [GroupStateUpdateTrigger (JStr g) JUndefined]
   \<and> bind_exn (TriggerBuilder_item (Prim (JStr g)) w) (\<lambda>(r, w).
     bind_exn (call_method method_receivedUpdate r w) (\<lambda>(r, w).
       call_query (method_toOHTriggers err) r w))
     = Inr [ItemStateUpdateTrigger (JStr g) JUndefined]
   \<and> bind_exn (TriggerBuilder_memberOf (Prim (JStr g)) w) (\<lambda>(r, w).
     bind_exn (call_method method_receivedCommand r w) (\<lambda>(r, w).
       call_query (method_toOHTriggers err) r w))
     = Inr [GroupCommandTrigger (JStr g) JUndefined]
   \<and> bind_exn (TriggerBuilder_item (Prim (JStr g)) w) (\<lambda>(r, w).
     bind_exn (call_method method_receivedCommand r w) (\<lambda>(r, w).
       call_query (method_toOHTriggers err) r w))
     = Inr [ItemCommandTrigger (JStr g) JUndefined]
   \<and> bind_exn (TriggerBuilder_memberOf (Prim (JStr g)) w) (\<lambda>(r, w).
     bind_exn (call_method method_changed r w) (\<lambda>(r, w).
       call_query (method_toOHTriggers err) r w))
     = Inr [GroupStateChangeTrigger (JStr g) JUndefined JUndefined]
   \<and> bind_exn (TriggerBuilder_item (Prim (JStr g)) w) (\<lambda>(r, w).
     bind_exn (call_method method_changed r w) (\<lambda>(r, w).
       call_query (method_toOHTriggers err) r w))
     = Inr [ItemStateChangeTrigger (JStr g) JUndefined JUndefined]"
proof -
  have tod: "bind_exn (TriggerBuilder_timeOfDay p w) (\<lambda>(r, w).
       call_query (method_toOHTriggers err) r w)
       = Inr [GroupStateChangeTrigger (JStr ''vTimeOfDay'') JUndefined p]
     \<and> bind_exn (TriggerBuilder_timeOfDay p w) (\<lambda>(r, w).
       call_query (\<lambda>c. Inr (conf_triggerBuilder c)) r w)
       = Inr (Prim JUndefined)"
    by (simp add: TriggerBuilder_timeOfDay_def starter_defs ItemTriggerConfig_changed_def
        ItemTriggerConfig_to_def ItemTriggerConfig_toOHTriggers_def)
  have mem: "bind_exn (TriggerBuilder_memberOf n w') (\<lambda>(r, w).
       call_query (\<lambda>c. Inr (conf_triggerBuilder c)) r w)
       \<noteq> Inr (Prim JUndefined)"
    by (simp add: starter_defs Let_def split: jsarg.splits jsval.splits)
  have chains: "bind_exn (TriggerBuilder_memberOf (Prim (JStr g)) w) (\<lambda>(r, w).
       bind_exn (call_method method_receivedUpdate r w) (\<lambda>(r, w).
         call_query (method_toOHTriggers err) r w))
       = Inr [GroupStateUpdateTrigger (JStr g) JUndefined]
     \<and> bind_exn (TriggerBuilder_item (Prim (JStr g)) w) (\<lambda>(r, w).
       bind_exn (call_method method_receivedUpdate r w) (\<lambda>(r, w).
         call_query (method_toOHTriggers err) r w))
       = Inr [ItemStateUpdateTrigger (JStr g) JUndefined]
     \<and> bind_exn (TriggerBuilder_memberOf (Prim (JStr g)) w) (\<lambda>(r, w).
       bind_exn (call_method method_receivedCommand r w) (\<lambda>(r, w).
         call_query (method_toOHTriggers err) r w))
       = Inr [GroupCommandTrigger (JStr g) JUndefined]
     \<and> bind_exn (TriggerBuilder_item (Prim (JStr g)) w) (\<lambda>(r, w).
       bind_exn (call_method method_receivedCommand r w) (\<lambda>(r, w).
         call_query (method_toOHTriggers err) r w))
       = Inr [ItemCommandTrigger (JStr g) JUndefined]
     \<and> bind_exn (TriggerBuilder_memberOf (Prim (JStr g)) w) (\<lambda>(r, w).
       bind_exn (call_method method_changed r w) (\<lambda>(r, w).
         call_query (method_toOHTriggers err) r w))
       = Inr [GroupStateChangeTrigger (JStr g) JUndefined JUndefined]
     \<and> bind_exn (TriggerBuilder_item (Prim (JStr g)) w) (\<lambda>(r, w).
       bind_exn (call_method method_changed r w) (\<lambda>(r, w).
         call_query (method_toOHTriggers err) r w))
       = Inr [ItemStateChangeTrigger (JStr g) JUndefined JUndefined]"
    by (simp add: starter_defs ItemTriggerConfig_receivedUpdate_def
        ItemTriggerConfig_receivedCommand_def ItemTriggerConfig_changed_def
        ItemTriggerConfig_toOHTriggers_def)
  from tod mem chains show ?thesis
    by simp
qed

text \<open>
  Claim C9: \<^verbatim>\<open>_toOHTriggers()\<close> raises on an ItemTriggerConfig whose operation kind is
  none of \<^verbatim>\<open>'changed'\<close>, \<^verbatim>\<open>'receivedCommand'\<close>, \<^verbatim>\<open>'receivedUpdate'\<close>, and on a
  ThingTriggerConfig whose operation kind is none of \<^verbatim>\<open>'changed'\<close>, \<^verbatim>\<open>'updated'\<close>; in
  both cases \<^verbatim>\<open>undefined\<close> is such a kind. What is raised is what the statement
  \<^verbatim>\<open>throw error(...)\<close> raises, whatever the binding of \<^verbatim>\<open>error\<close>.
\<close>

theorem toOHTriggers_unknown_kind:
  "(ItemTriggerConfig.op_type c
      \<notin> {JStr ''changed'', JStr ''receivedCommand'', JStr ''receivedUpdate''}
      \<longrightarrow> ItemTriggerConfig_toOHTriggers err c
            = Inl (throw_error err
                 (''Unknown operation type: '' @ ToString (ItemTriggerConfig.op_type c))))
   \<and> (ThingTriggerConfig.op_type t \<notin> {JStr ''changed'', JStr ''updated''}
      \<longrightarrow> ThingTriggerConfig_toOHTriggers err t
            = Inl (throw_error err
                 (''Unknown operation type: '' @ ToString (ThingTriggerConfig.op_type t))))"
  by (simp add: ItemTriggerConfig_toOHTriggers_def ThingTriggerConfig_toOHTriggers_def)

text \<open>
  The theorem at an item whose operation kind is \<^verbatim>\<open>undefined\<close> and at a thing whose
  operation kind was set to \<^verbatim>\<open>'removed'\<close>, with no global \<^verbatim>\<open>error\<close>.
\<close>

theorem toOHTriggers_unknown_kind_witness:
  "ItemTriggerConfig.op_type (changed_item\<lparr>ItemTriggerConfig.op_type := JUndefined\<rparr>)
     \<notin> {JStr ''changed'', JStr ''receivedCommand'', JStr ''receivedUpdate''}
   \<and> ItemTriggerConfig_toOHTriggers None (changed_item\<lparr>ItemTriggerConfig.op_type := JUndefined\<rparr>)
     = Inl (ReferenceError ''error is not defined'')
   \<and> ThingTriggerConfig.op_type (updated_thing\<lparr>ThingTriggerConfig.op_type := JStr ''removed''\<rparr>)
     \<notin> {JStr ''changed'', JStr ''updated''}
   \<and> ThingTriggerConfig_toOHTriggers None
        (updated_thing\<lparr>ThingTriggerConfig.op_type := JStr ''removed''\<rparr>)
     = Inl (ReferenceError ''error is not defined'')"
  using toOHTriggers_unknown_kind [where err = None
      and c = "changed_item\<lparr>ItemTriggerConfig.op_type := JUndefined\<rparr>"
      and t = "updated_thing\<lparr>ThingTriggerConfig.op_type := JStr ''removed''\<rparr>"]
  by (simp add: throw_error_def)


subsection \<open>Completeness and start levels\<close>

text \<open>
  Claim C7: right after construction \<^verbatim>\<open>_complete()\<close> is false for a
  ChannelTriggerConfig, an ItemTriggerConfig, a ThingTriggerConfig and a
  SystemTriggerConfig, and true for a CronTriggerConfig, whatever the constructor was
  given (the constructor of ItemTriggerConfig raises on \<^verbatim>\<open>undefined\<close> and \<^verbatim>\<open>null\<close> and
  then constructs nothing).
\<close>

theorem complete_after_construction:
  "\<not> ChannelTriggerConfig_complete (ChannelTriggerConfig_constructor n tb)
   \<and> CronTriggerConfig_complete (CronTriggerConfig_constructor s tb)
   \<and> (\<forall>c. ItemTriggerConfig_constructor a g tb = Inr c \<longrightarrow> \<not> ItemTriggerConfig_complete c)
   \<and> \<not> ThingTriggerConfig_complete (ThingTriggerConfig_constructor u tb)
   \<and> \<not> SystemTriggerConfig_complete (SystemTriggerConfig_constructor tb)"
  by (auto simp: ChannelTriggerConfig_complete_def ChannelTriggerConfig_constructor_def
      CronTriggerConfig_complete_def ItemTriggerConfig_constructor_def
      ItemTriggerConfig_complete_def ThingTriggerConfig_complete_def
      ThingTriggerConfig_constructor_def SystemTriggerConfig_complete_def
      SystemTriggerConfig_constructor_def Let_def split: jsarg.splits jsval.splits)

theorem complete_after_construction_witness:
  "ItemTriggerConfig_constructor (Prim (JStr ''Lamp'')) (Prim (JBool False)) Builder
     = Inr \<lparr>triggerBuilder = Builder, type = ''item'', item_name = JStr ''Lamp'',
            ItemTriggerConfig.op_type = JUndefined, ItemTriggerConfig.to_value = JUndefined,
            ItemTriggerConfig.from_value = JUndefined\<rparr>
   \<and> \<not> ItemTriggerConfig_complete
        \<lparr>triggerBuilder = Builder, type = ''item'', item_name = JStr ''Lamp'',
         ItemTriggerConfig.op_type = JUndefined, ItemTriggerConfig.to_value = JUndefined,
         ItemTriggerConfig.from_value = JUndefined\<rparr>"
  using complete_after_construction [where a = "Prim (JStr ''Lamp'')"
      and g = "Prim (JBool False)" and tb = Builder]
  by (simp add: ItemTriggerConfig_constructor_def)

text \<open>
  Claim C8: on a SystemTriggerConfig, \<^verbatim>\<open>rulesLoaded()\<close> sets the level to 40,
  \<^verbatim>\<open>ruleEngineStarted()\<close> to 50, \<^verbatim>\<open>userInterfacesStarted()\<close> to 70,
  \<^verbatim>\<open>thingsInitialized()\<close> to 80, \<^verbatim>\<open>startupComplete()\<close> to 100 and \<^verbatim>\<open>startLevel(n)\<close> to
  \<open>n\<close>; each returns its receiver, and \<^verbatim>\<open>_toOHTriggers()\<close> then emits the start-level
  trigger of the level that was set.
\<close>

theorem system_levels:
  assumes "r < length (heap w)" and "heap w ! r = System c"
  shows "call_method (method_system SystemTriggerConfig_rulesLoaded) r w
           = Inr (r, w\<lparr>heap := (heap w)[r := System (c\<lparr>level := JNum 40\<rparr>)]\<rparr>)
    \<and> call_method (method_system SystemTriggerConfig_ruleEngineStarted) r w
           = Inr (r, w\<lparr>heap := (heap w)[r := System (c\<lparr>level := JNum 50\<rparr>)]\<rparr>)
    \<and> call_method (method_system SystemTriggerConfig_userInterfacesStarted) r w
           = Inr (r, w\<lparr>heap := (heap w)[r := System (c\<lparr>level := JNum 70\<rparr>)]\<rparr>)
    \<and> call_method (method_system SystemTriggerConfig_thingsInitialized) r w
           = Inr (r, w\<lparr>heap := (heap w)[r := System (c\<lparr>level := JNum 80\<rparr>)]\<rparr>)
    \<and> call_method (method_system SystemTriggerConfig_startupComplete) r w
           = Inr (r, w\<lparr>heap := (heap w)[r := System (c\<lparr>level := JNum 100\<rparr>)]\<rparr>)
    \<and> call_method (method_system (SystemTriggerConfig_startLevel n)) r w
           = Inr (r, w\<lparr>heap := (heap w)[r := System (c\<lparr>level := n\<rparr>)]\<rparr>)
    \<and> call_query (method_toOHTriggers err) r
           (w\<lparr>heap := (heap w)[r := System (c\<lparr>level := n\<rparr>)]\<rparr>)
           = Inr [SystemStartlevelTrigger n]"
  using assms
  by (simp add: call_method_def call_query_def bind_exn_def SystemTriggerConfig_rulesLoaded_def
      SystemTriggerConfig_ruleEngineStarted_def SystemTriggerConfig_userInterfacesStarted_def
      SystemTriggerConfig_thingsInitialized_def SystemTriggerConfig_startupComplete_def
      SystemTriggerConfig_startLevel_def SystemTriggerConfig_toOHTriggers_def)

text \<open>The theorem at \<^verbatim>\<open>system()\<close> on a fresh builder.\<close>

theorem system_levels_witness:
  "TriggerBuilder_system fresh_world
     = (0, \<lparr>heap = [System \<lparr>triggerBuilder = Builder, level = JUndefined\<rparr>],
            builder = Some \<lparr>triggers = []\<rparr>, currentTigger = Some 0\<rparr>)
   \<and> call_method (method_system SystemTriggerConfig_rulesLoaded) 0
        (snd (TriggerBuilder_system fresh_world))
     = Inr (0, \<lparr>heap = [System \<lparr>triggerBuilder = Builder, level = JNum 40\<rparr>],
                 builder = Some \<lparr>triggers = []\<rparr>, currentTigger = Some 0\<rparr>)
   \<and> call_method (method_system SystemTriggerConfig_startupComplete) 0
        (snd (TriggerBuilder_system fresh_world))
     = Inr (0, \<lparr>heap = [System \<lparr>triggerBuilder = Builder, level = JNum 100\<rparr>],
                 builder = Some \<lparr>triggers = []\<rparr>, currentTigger = Some 0\<rparr>)
   \<and> call_query (method_toOHTriggers None) 0
        \<lparr>heap = [System \<lparr>triggerBuilder = Builder, level = JNum 40\<rparr>],
         builder = Some \<lparr>triggers = []\<rparr>, currentTigger = Some 0\<rparr>
     = Inr [SystemStartlevelTrigger (JNum 40)]"
  using system_levels [where r = 0 and w = "snd (TriggerBuilder_system fresh_world)"
      and c = "\<lparr>triggerBuilder = Builder, level = JUndefined\<rparr>" and n = "JNum 40" and err = None]
  by (simp add: TriggerBuilder_system_def fresh_world_simps alloc_def
      TriggerBuilder_setTrigger_def SystemTriggerConfig_constructor_def)


subsection \<open>Combinators before any starter\<close>

text \<open>
  Claim C10: on a builder that owns a rule builder and whose current-trigger slot was
  never set, \<^verbatim>\<open>_or()\<close>, \<^verbatim>\<open>_then(fn)\<close> and \<^verbatim>\<open>_if(fn)\<close> do not raise; each calls
  \<^verbatim>\<open>addTrigger\<close> with \<^verbatim>\<open>undefined\<close>, so that the collection gets an \<^verbatim>\<open>undefined\<close> entry
  at its end.
\<close>

theorem combinators_before_any_starter:
  assumes "builder w = Some rb" and "currentTigger w = None"
  shows "TriggerBuilder_or w = Inr (w\<lparr>builder := Some (addTrigger None rb)\<rparr>)
       \<and> TriggerBuilder_then fn w
           = Inr (OperationBuilder fn, w\<lparr>builder := Some (addTrigger None rb)\<rparr>)
       \<and> TriggerBuilder_if fn w
           = Inr (ConditionBuilder fn, w\<lparr>builder := Some (addTrigger None rb)\<rparr>)
       \<and> triggers (addTrigger None rb) = triggers rb @ [None]"
  using assms
  by (simp add: TriggerBuilder_or_def TriggerBuilder_then_def TriggerBuilder_if_def bind_exn_def
      addTrigger_def)

theorem combinators_before_any_starter_witness:
  "builder fresh_world = Some \<lparr>triggers = []\<rparr> \<and> currentTigger fresh_world = None
   \<and> TriggerBuilder_or fresh_world
       = Inr \<lparr>heap = [], builder = Some \<lparr>triggers = [None]\<rparr>, currentTigger = None\<rparr>
   \<and> TriggerBuilder_then (0::nat) fresh_world
       = Inr (OperationBuilder 0,
              \<lparr>heap = [], builder = Some \<lparr>triggers = [None]\<rparr>, currentTigger = None\<rparr>)
   \<and> TriggerBuilder_if (0::nat) fresh_world
       = Inr (ConditionBuilder 0,
              \<lparr>heap = [], builder = Some \<lparr>triggers = [None]\<rparr>, currentTigger = None\<rparr>)"
proof -
  have b: "builder fresh_world = Some \<lparr>triggers = []\<rparr>"
    and c: "currentTigger fresh_world = None"
    by (simp_all add: fresh_world_simps)
  show ?thesis
    using b c combinators_before_any_starter [OF b c, of "0::nat"]
    by (simp add: fresh_world_simps addTrigger_def)
qed

end
